theory Spec2Isabelle
  imports Main "HOL-Library.Word"
begin

section \<open>The controller of nodekit-seq: block acceptance and initialization\<close>

text \<open>
  A shallow embedding of \<^verbatim>\<open>controller/controller.go\<close>. The controller binds the
  chain's actions into the hypersdk virtual machine: \<^verbatim>\<open>Initialize\<close> opens the
  stores and selects the builder and the gossiper, \<^verbatim>\<open>Accepted\<close> indexes the
  transactions of a finalized block in the metadata store and counts the successful
  actions, \<^verbatim>\<open>Rejected\<close> does nothing.

  Calls that leave the file (the storage batch, the pebble stores, the configuration
  and genesis parsers, the hypersdk constructors) can fail for reasons the controller
  does not see. Their outcomes are inputs of the model: each function takes a record
  saying what every such call returns.
\<close>

subsection \<open>Data\<close>

text \<open>Go's \<^verbatim>\<open>error\<close>: a value carrying a message; \<^verbatim>\<open>nil\<close> is \<open>None\<close> of \<open>error option\<close>.\<close>

datatype error = Error string

text \<open>
  \<^verbatim>\<open>ids.ID\<close> is a 32-byte hash. The controller only passes it on as a key, so the
  model keeps it as one 256-bit word.
\<close>

type_synonym ID = "256 word"

text \<open>
  The concrete types behind \<^verbatim>\<open>tx.Action\<close> that the type switch of
  \<^verbatim>\<open>Accepted\<close> names, and \<open>OtherAction\<close> for every other implementation of the
  interface (tagged with its type name).
\<close>

datatype action =
    CreateAsset
  | MintAsset
  | BurnAsset
  | ModifyAsset
  | Transfer
  | SequencerMsg
  | ImportAsset
  | ExportAsset
  | OtherAction string

record Transaction =
  ID :: ID
  Action :: action

record Result =
  Success :: bool
  Units :: "64 word"

text \<open>
  \<^verbatim>\<open>chain.StatelessBlock\<close>, as far as \<^verbatim>\<open>Accepted\<close> reads it: the field
  \<^verbatim>\<open>Txs\<close> and the accessors \<^verbatim>\<open>Results()\<close> and \<^verbatim>\<open>GetTimestamp()\<close>
  (an \<^verbatim>\<open>int64\<close>).
\<close>

record StatelessBlock =
  Txs :: "Transaction list"
  Results :: "Result list"
  GetTimestamp :: "64 word"

text \<open>
  The counters of \<^verbatim>\<open>c.metrics\<close>. A prometheus counter only grows by \<^verbatim>\<open>Inc()\<close>
  here; its value is a natural number.
\<close>

record metrics =
  createAsset :: nat
  mintAsset :: nat
  burnAsset :: nat
  modifyAsset :: nat
  transfer :: nat
  sequencerMsg :: nat
  importAsset :: nat
  exportAsset :: nat

text \<open>
  An indexed transaction record, and the metadata store as a map from transaction
  identifiers to records.
\<close>

record tx_record =
  timestamp :: "64 word"
  success :: bool
  units :: "64 word"

type_synonym database = "ID \<rightharpoonup> tx_record"

text \<open>
  A write batch (\<^verbatim>\<open>database.Batch\<close>) holds the writes queued so far, oldest first.
  Nothing reaches the store before \<^verbatim>\<open>Write\<close>.
\<close>

type_synonym batch = "(ID \<times> tx_record) list"

text \<open>
  What the storage layer does during one call of \<^verbatim>\<open>Accepted\<close>: \<open>put_fault i\<close>
  is the error of the \<open>i\<close>-th \<^verbatim>\<open>Put\<close> on the batch (counted from 0), and
  \<open>write_fault\<close> the error of the final \<^verbatim>\<open>Write\<close>; \<open>None\<close> is success.
\<close>

record faults =
  put_fault :: "nat \<Rightarrow> error option"
  write_fault :: "error option"

subsection \<open>Data of the initialization\<close>

text \<open>
  \<^verbatim>\<open>config.Config\<close>, as far as \<^verbatim>\<open>Initialize\<close> reads it: the fields it copies
  and the value of the accessor \<^verbatim>\<open>GetPreferredBlocksPerSecond()\<close>. Durations and
  counts are 64-bit integers.
\<close>

record Config =
  TestMode :: bool
  GossipInterval :: "64 word"
  GossipMaxSize :: "64 word"
  GossipProposerDiff :: "64 word"
  GossipProposerDepth :: "64 word"
  BuildProposerDiff :: "64 word"
  VerifyTimeout :: "64 word"
  GetPreferredBlocksPerSecond :: "64 word"

text \<open>The parsed genesis is passed on untouched; the model keeps a label for it.\<close>

datatype Genesis = Genesis string

datatype HTTPHandler = HTTPHandler string

text \<open>
  \<^verbatim>\<open>builder.TimeConfig\<close> and \<^verbatim>\<open>gossiper.ProposerConfig\<close> belong to hypersdk. The
  records name the fields that \<^verbatim>\<open>Initialize\<close> assigns; whatever else the structs
  hold travels in the extension of the record (\<open>'t\<close>, \<open>'p\<close>) and is never touched.
\<close>

record TimeConfig =
  PreferredBlocksPerSecond :: "64 word"

record ProposerConfig =
  GossipInterval :: "64 word"
  GossipMaxSize :: "64 word"
  GossipProposerDiff :: "64 word"
  GossipProposerDepth :: "64 word"
  BuildProposerDiff :: "64 word"
  VerifyTimeout :: "64 word"

text \<open>
  The two block-production strategies (\<^verbatim>\<open>builder.NewManual\<close>, \<^verbatim>\<open>builder.NewTime\<close>)
  and the two gossip strategies (\<^verbatim>\<open>gossiper.NewManual\<close>, \<^verbatim>\<open>gossiper.NewProposer\<close>),
  each with the configuration it was built from.
\<close>

datatype 't Builder =
    ManualBuilder
  | TimeBuilder "'t TimeConfig_scheme"

datatype 'p Gossiper =
    ManualGossiper
  | ProposerGossiper "'p ProposerConfig_scheme"

text \<open>
  The controller once \<^verbatim>\<open>Initialize\<close> has returned without error: every field is
  set (each failing step returns an error first, and the host starts no chain).
  \<open>metrics\<close> holds the counters' values and \<open>metaDB\<close> the metadata store, whose type
  is left open: \<^verbatim>\<open>Initialize\<close> only passes store handles on, \<^verbatim>\<open>Accepted\<close>
  works on the contents of the store. The references to the host (\<^verbatim>\<open>inner\<close>,
  \<^verbatim>\<open>snowCtx\<close>) and the stateless \<^verbatim>\<open>stateManager\<close> are left out.
\<close>

record 'db Controller =
  genesis :: Genesis
  config :: Config
  metrics :: metrics
  metaDB :: 'db

text \<open>
  What the calls of \<^verbatim>\<open>Initialize\<close> that leave the file return, in the order of
  the calls: \<open>Inl\<close> is the error. \<open>InitSubDirectory root name\<close> gives the path of the
  subdirectory, \<open>pebble_New path\<close> the store opened there. The two default
  configurations are those of hypersdk.
\<close>

record ('db, 't, 'p) init_env =
  newMetrics :: "error + metrics"
  config_New :: "error + Config"
  genesis_New :: "error + Genesis"
  ChainDataDir :: string
  InitSubDirectory :: "string \<Rightarrow> string \<Rightarrow> error + string"
  pebble_New :: "string \<Rightarrow> error + 'db"
  JSONRPCEndpoint :: string
  NewJSONRPCHandler :: "error + HTTPHandler"
  DefaultTimeConfig :: "'t TimeConfig_scheme"
  DefaultProposerConfig :: "'p ProposerConfig_scheme"

text \<open>
  What \<^verbatim>\<open>Initialize\<close> hands to the host when it succeeds. (The action and
  authentication registries are package constants, returned as they are.) On the
  error path the Go function returns \<^verbatim>\<open>nil\<close> in each of these places, next to the
  error: that is \<open>Inl\<close> of the sum.
\<close>

record ('db, 't, 'p) vm_parts =
  vm_Config :: Config
  vm_Genesis :: Genesis
  vm_Builder :: "'t Builder"
  vm_Gossiper :: "'p Gossiper"
  vm_blockDB :: 'db
  vm_stateDB :: 'db
  vm_Handlers :: "string \<rightharpoonup> HTTPHandler"

subsection \<open>The storage calls of \<^verbatim>\<open>Accepted\<close>\<close>

definition NewBatch :: batch where
  "NewBatch = []"

text \<open>
  Modelled from the spec: \<^verbatim>\<open>storage.StoreTransaction\<close> is not part of
  \<^verbatim>\<open>controller.go\<close>. Following sections 4.3 and 6 of the specification it writes
  one indexed transaction record (block timestamp, success flag, resource-unit cost),
  keyed by the transaction identifier, into the batch, or fails and writes nothing.
\<close>

definition StoreTransaction ::
  "error option \<Rightarrow> batch \<Rightarrow> ID \<Rightarrow> 64 word \<Rightarrow> bool \<Rightarrow> 64 word \<Rightarrow> error + batch" where
  "StoreTransaction fault b txid t s u =
     (case fault of
        Some e \<Rightarrow> Inl e
      | None \<Rightarrow> Inr (b @ [(txid, \<lparr>timestamp = t, success = s, units = u\<rparr>)]))"

text \<open>Applying queued writes to a store, oldest first: a later write to a key wins.\<close>

fun apply_writes :: "database \<Rightarrow> batch \<Rightarrow> database" where
  "apply_writes db [] = db"
| "apply_writes db ((k, v) # ws) = apply_writes (db(k \<mapsto> v)) ws"

text \<open>
  \<^verbatim>\<open>batch.Write()\<close> belongs to the database package of avalanchego. It is taken as
  section 4.3 of the specification takes it (atomicity is provided by the underlying
  batch commit): every queued write is applied, or the call fails and the store is as
  before.
\<close>

definition Write :: "error option \<Rightarrow> batch \<Rightarrow> database \<Rightarrow> error option \<times> database" where
  "Write fault b db =
     (case fault of
        Some e \<Rightarrow> (Some e, db)
      | None \<Rightarrow> (None, apply_writes db b))"

subsection \<open>\<^verbatim>\<open>Accepted\<close>\<close>

text \<open>
  The type switch of lines 198-215: one counter per named action type, no default
  branch. (Line 209 lacks the colon after \<^verbatim>\<open>case *actions.SequencerMsg\<close>; it is read
  as the case label it stands for.)
\<close>

fun count_action :: "action \<Rightarrow> metrics \<Rightarrow> metrics" where
  "count_action CreateAsset m = m\<lparr>createAsset := Suc (createAsset m)\<rparr>"
| "count_action MintAsset m = m\<lparr>mintAsset := Suc (mintAsset m)\<rparr>"
| "count_action BurnAsset m = m\<lparr>burnAsset := Suc (burnAsset m)\<rparr>"
| "count_action ModifyAsset m = m\<lparr>modifyAsset := Suc (modifyAsset m)\<rparr>"
| "count_action Transfer m = m\<lparr>transfer := Suc (transfer m)\<rparr>"
| "count_action SequencerMsg m = m\<lparr>sequencerMsg := Suc (sequencerMsg m)\<rparr>"
| "count_action ImportAsset m = m\<lparr>importAsset := Suc (importAsset m)\<rparr>"
| "count_action ExportAsset m = m\<lparr>exportAsset := Suc (exportAsset m)\<rparr>"
| "count_action (OtherAction n) m = m"

text \<open>How the loop over \<^verbatim>\<open>blk.Txs\<close> ends.\<close>

datatype loop_exit =
    Done batch
  | Failed error
  | IndexOutOfRange

text \<open>
  Lines 184-217. \<open>i\<close> is the loop index, \<open>txs\<close> the transactions from index \<open>i\<close>
  on. \<^verbatim>\<open>results[i]\<close> panics when \<open>i\<close> is not below the length of the slice; a failed
  \<^verbatim>\<open>StoreTransaction\<close> returns at once; the counter of a successful transaction is
  incremented after its record is queued. The counters are returned in every case:
  increments are not undone.
\<close>

fun accept_loop ::
  "(nat \<Rightarrow> error option) \<Rightarrow> nat \<Rightarrow> Transaction list \<Rightarrow> Result list \<Rightarrow> 64 word \<Rightarrow>
     batch \<Rightarrow> metrics \<Rightarrow> loop_exit \<times> metrics" where
  "accept_loop pf i [] results t b m = (Done b, m)"
| "accept_loop pf i (tx # txs) results t b m =
     (if length results \<le> i then (IndexOutOfRange, m)
      else
        let result = results ! i in
        case StoreTransaction (pf i) b (ID tx) t (Success result) (Units result) of
          Inl err \<Rightarrow> (Failed err, m)
        | Inr b' \<Rightarrow>
            accept_loop pf (Suc i) txs results t b'
              (if Success result then count_action (Action tx) m else m))"

text \<open>What a call of \<^verbatim>\<open>Accepted\<close> does: return an error value, or panic.\<close>

datatype outcome =
    Returned "error option"
  | Panic

text \<open>
  Lines 179-219. The batch is local to the call and the deferred \<^verbatim>\<open>batch.Reset()\<close>
  empties it on every way out, so no batch is part of the state that is left.
\<close>

definition Accepted ::
  "faults \<Rightarrow> database Controller \<Rightarrow> StatelessBlock \<Rightarrow> outcome \<times> database Controller" where
  "Accepted env c blk =
     (let batch = NewBatch;
          results = Results blk
      in case accept_loop (put_fault env) 0 (Txs blk) results (GetTimestamp blk) batch (metrics c) of
           (IndexOutOfRange, m) \<Rightarrow> (Panic, c\<lparr>metrics := m\<rparr>)
         | (Failed err, m) \<Rightarrow> (Returned (Some err), c\<lparr>metrics := m\<rparr>)
         | (Done b, m) \<Rightarrow>
             (case Write (write_fault env) b (metaDB c) of
                (r, db) \<Rightarrow> (Returned r, c\<lparr>metrics := m, metaDB := db\<rparr>)))"

text \<open>Lines 221-223: \<^verbatim>\<open>Rejected\<close> has no receiver name and returns \<^verbatim>\<open>nil\<close>.\<close>

definition Rejected :: "'db Controller \<Rightarrow> StatelessBlock \<Rightarrow> error option \<times> 'db Controller" where
  "Rejected c blk = (None, c)"

subsection \<open>\<^verbatim>\<open>Initialize\<close>\<close>

text \<open>Line 93: \<^verbatim>\<open>fmt.Errorf("unable to read genesis: %w", err)\<close>.\<close>

fun wrap_genesis_error :: "error \<Rightarrow> error" where
  "wrap_genesis_error (Error msg) = Error (''unable to read genesis: '' @ msg)"

text \<open>
  Lines 144-164: the builder and the gossiper. In test mode both are manual. Otherwise
  the default configurations are taken and the configured values assigned over them,
  each without a test.
\<close>

definition create_builder_gossiper ::
  "('db, 't, 'p) init_env \<Rightarrow> Config \<Rightarrow> 't Builder \<times> 'p Gossiper" where
  "create_builder_gossiper env cfg =
     (if TestMode cfg then (ManualBuilder, ManualGossiper)
      else
        let bcfg = (DefaultTimeConfig env)
              \<lparr>PreferredBlocksPerSecond := GetPreferredBlocksPerSecond cfg\<rparr>;
            gcfg = (DefaultProposerConfig env)
              \<lparr>GossipInterval := Config.GossipInterval cfg,
               GossipMaxSize := Config.GossipMaxSize cfg,
               GossipProposerDiff := Config.GossipProposerDiff cfg,
               GossipProposerDepth := Config.GossipProposerDepth cfg,
               BuildProposerDiff := Config.BuildProposerDiff cfg,
               VerifyTimeout := Config.VerifyTimeout cfg\<rparr>
        in (TimeBuilder bcfg, ProposerGossiper gcfg))"

text \<open>
  Lines 53-168, one \<open>case\<close> for each call that can fail, in the order of the source.
  Every error is returned as it is, except the genesis error, which is wrapped.
\<close>

definition Initialize ::
  "('db, 't, 'p) init_env \<Rightarrow> error + (('db, 't, 'p) vm_parts \<times> 'db Controller)" where
  "Initialize env =
     (case newMetrics env of Inl err \<Rightarrow> Inl err | Inr ms \<Rightarrow>
     (case config_New env of Inl err \<Rightarrow> Inl err | Inr cfg \<Rightarrow>
     (case genesis_New env of Inl err \<Rightarrow> Inl (wrap_genesis_error err) | Inr gen \<Rightarrow>
     (case InitSubDirectory env (ChainDataDir env) ''block'' of Inl err \<Rightarrow> Inl err | Inr blockPath \<Rightarrow>
     (case pebble_New env blockPath of Inl err \<Rightarrow> Inl err | Inr blockDB \<Rightarrow>
     (case InitSubDirectory env (ChainDataDir env) ''state'' of Inl err \<Rightarrow> Inl err | Inr statePath \<Rightarrow>
     (case pebble_New env statePath of Inl err \<Rightarrow> Inl err | Inr stateDB \<Rightarrow>
     (case InitSubDirectory env (ChainDataDir env) ''metadata'' of Inl err \<Rightarrow> Inl err | Inr metaPath \<Rightarrow>
     (case pebble_New env metaPath of Inl err \<Rightarrow> Inl err | Inr mdb \<Rightarrow>
     (case NewJSONRPCHandler env of Inl err \<Rightarrow> Inl err | Inr jsonRPCHandler \<Rightarrow>
        (let apis = Map.empty(JSONRPCEndpoint env \<mapsto> jsonRPCHandler);
             strategies = create_builder_gossiper env cfg
         in Inr (\<lparr>vm_Config = cfg, vm_Genesis = gen,
                   vm_Builder = fst strategies, vm_Gossiper = snd strategies,
                   vm_blockDB = blockDB, vm_stateDB = stateDB, vm_Handlers = apis\<rparr>,
                 \<lparr>genesis = gen, config = cfg, metrics = ms, metaDB = mdb\<rparr>))))))))))))"

subsection \<open>Notions of the specification\<close>

text \<open>The record that the specification asks for a transaction and its result.\<close>

definition record_of :: "64 word \<Rightarrow> Transaction \<times> Result \<Rightarrow> ID \<times> tx_record" where
  "record_of t p =
     (ID (fst p), \<lparr>timestamp = t, success = Success (snd p), units = Units (snd p)\<rparr>)"

definition indexed_records :: "StatelessBlock \<Rightarrow> (ID \<times> tx_record) list" where
  "indexed_records blk = map (record_of (GetTimestamp blk)) (zip (Txs blk) (Results blk))"

text \<open>Counting one transaction with its result, as one pass of the loop does.\<close>

definition count_result :: "metrics \<Rightarrow> Transaction \<times> Result \<Rightarrow> metrics" where
  "count_result m p = (if Success (snd p) then count_action (Action (fst p)) m else m)"

text \<open>
  The number of successful transactions of action kind \<open>K\<close> in a list of transactions
  with their results, and the counters raised by these numbers.
\<close>

definition count_kind :: "action \<Rightarrow> (Transaction \<times> Result) list \<Rightarrow> nat" where
  "count_kind K prs = length (filter (\<lambda>p. Success (snd p) \<and> Action (fst p) = K) prs)"

definition add_counts :: "metrics \<Rightarrow> (Transaction \<times> Result) list \<Rightarrow> metrics" where
  "add_counts m prs =
     \<lparr>createAsset = createAsset m + count_kind CreateAsset prs,
      mintAsset = mintAsset m + count_kind MintAsset prs,
      burnAsset = burnAsset m + count_kind BurnAsset prs,
      modifyAsset = modifyAsset m + count_kind ModifyAsset prs,
      transfer = transfer m + count_kind Transfer prs,
      sequencerMsg = sequencerMsg m + count_kind SequencerMsg prs,
      importAsset = importAsset m + count_kind ImportAsset prs,
      exportAsset = exportAsset m + count_kind ExportAsset prs\<rparr>"

text \<open>
  Of the calls \<open>i, i + 1, \<dots>, i + n - 1\<close> of \<^verbatim>\<open>Put\<close>: how many succeed before the
  first one fails, and the error of that one.
\<close>

fun puts_ok :: "(nat \<Rightarrow> error option) \<Rightarrow> nat \<Rightarrow> nat \<Rightarrow> nat" where
  "puts_ok pf i 0 = 0"
| "puts_ok pf i (Suc n) = (case pf i of None \<Rightarrow> Suc (puts_ok pf (Suc i) n) | Some e \<Rightarrow> 0)"

fun first_fault :: "(nat \<Rightarrow> error option) \<Rightarrow> nat \<Rightarrow> nat \<Rightarrow> error option" where
  "first_fault pf i 0 = None"
| "first_fault pf i (Suc n) = (case pf i of None \<Rightarrow> first_fault pf (Suc i) n | Some e \<Rightarrow> Some e)"

text \<open>
  The transactions of a block that \<^verbatim>\<open>Accepted\<close> gets to count: those with a result
  whose record was queued, that is, all before the first failing write.
\<close>

definition reached :: "faults \<Rightarrow> StatelessBlock \<Rightarrow> (Transaction \<times> Result) list" where
  "reached env blk =
     take (puts_ok (put_fault env) 0 (length (zip (Txs blk) (Results blk))))
       (zip (Txs blk) (Results blk))"

text \<open>The loop in closed form.\<close>

definition loop_result ::
  "(nat \<Rightarrow> error option) \<Rightarrow> nat \<Rightarrow> Transaction list \<Rightarrow> Result list \<Rightarrow> 64 word \<Rightarrow>
     batch \<Rightarrow> metrics \<Rightarrow> loop_exit \<times> metrics" where
  "loop_result pf i txs results t b m =
     (let prs = zip txs (drop i results)
      in ((case first_fault pf i (length prs) of
             Some e \<Rightarrow> Failed e
           | None \<Rightarrow>
               if length txs \<le> length results - i then Done (b @ map (record_of t) prs)
               else IndexOutOfRange),
          foldl count_result m (take (puts_ok pf i (length prs)) prs)))"

text \<open>
  A run of the controller over several blocks, each with what the storage layer does
  during its call; and several rejections in a row, with the values they return.
\<close>

fun Accepted_all ::
  "database Controller \<Rightarrow> (faults \<times> StatelessBlock) list \<Rightarrow> database Controller" where
  "Accepted_all c [] = c"
| "Accepted_all c ((env, blk) # rest) = Accepted_all (snd (Accepted env c blk)) rest"

fun Rejected_all ::
  "'db Controller \<Rightarrow> StatelessBlock list \<Rightarrow> error option list \<times> 'db Controller" where
  "Rejected_all c [] = ([], c)"
| "Rejected_all c (blk # rest) =
     (case Rejected c blk of
        (r, c') \<Rightarrow> (case Rejected_all c' rest of (rs, c'') \<Rightarrow> (r # rs, c'')))"

text \<open>
  Setting up one store, as lines 101-126 do three times: the subdirectory, then the
  store in it. The set-up of the stores fails when one of the three does.
\<close>

definition open_store :: "('db, 't, 'p) init_env \<Rightarrow> string \<Rightarrow> error + 'db" where
  "open_store env name =
     (case InitSubDirectory env (ChainDataDir env) name of
        Inl err \<Rightarrow> Inl err
      | Inr path \<Rightarrow> pebble_New env path)"

definition store_setup_fails :: "('db, 't, 'p) init_env \<Rightarrow> bool" where
  "store_setup_fails env \<longleftrightarrow>
     isl (open_store env ''block'') \<or> isl (open_store env ''state'') \<or>
     isl (open_store env ''metadata'')"

text \<open>The error of the first of the three set-ups that fails, in the order of the source.\<close>

definition first_store_error :: "('db, 't, 'p) init_env \<Rightarrow> error option" where
  "first_store_error env =
     (case open_store env ''block'' of
        Inl err \<Rightarrow> Some err
      | Inr blockDB \<Rightarrow>
          (case open_store env ''state'' of
             Inl err \<Rightarrow> Some err
           | Inr stateDB \<Rightarrow>
               (case open_store env ''metadata'' of
                  Inl err \<Rightarrow> Some err
                | Inr mdb \<Rightarrow> None)))"

subsection \<open>Sample data\<close>

text \<open>
  A controller with all counters at zero and an empty metadata store, and the block of
  the scenario in section 8 of the specification: a successful transfer of 5 units and
  a failed mint of 0 units.
\<close>

definition no_counts :: metrics where
  "no_counts =
     \<lparr>createAsset = 0, mintAsset = 0, burnAsset = 0, modifyAsset = 0, transfer = 0,
      sequencerMsg = 0, importAsset = 0, exportAsset = 0\<rparr>"

definition sample_config :: "bool \<Rightarrow> Config" where
  "sample_config test =
     \<lparr>TestMode = test, Config.GossipInterval = 0, Config.GossipMaxSize = 1024,
      Config.GossipProposerDiff = 3, Config.GossipProposerDepth = 2,
      Config.BuildProposerDiff = 5, Config.VerifyTimeout = 10,
      GetPreferredBlocksPerSecond = 7\<rparr>"

definition fresh :: "database Controller" where
  "fresh =
     \<lparr>genesis = Genesis ''genesis'', config = sample_config False, metrics = no_counts,
      metaDB = Map.empty\<rparr>"

definition scenario_block :: StatelessBlock where
  "scenario_block =
     \<lparr>Txs = [\<lparr>ID = 1, Action = Transfer\<rparr>, \<lparr>ID = 2, Action = MintAsset\<rparr>],
      Results = [\<lparr>Success = True, Units = 5\<rparr>, \<lparr>Success = False, Units = 0\<rparr>],
      GetTimestamp = 1700000000\<rparr>"

definition two_transfers :: StatelessBlock where
  "two_transfers =
     \<lparr>Txs = [\<lparr>ID = 1, Action = Transfer\<rparr>, \<lparr>ID = 2, Action = Transfer\<rparr>],
      Results = [\<lparr>Success = True, Units = 5\<rparr>, \<lparr>Success = True, Units = 6\<rparr>],
      GetTimestamp = 1700000000\<rparr>"

definition empty_block :: StatelessBlock where
  "empty_block = \<lparr>Txs = [], Results = [], GetTimestamp = 1700000000\<rparr>"

text \<open>A block whose result list is one entry short.\<close>

definition short_results :: StatelessBlock where
  "short_results =
     \<lparr>Txs = [\<lparr>ID = 1, Action = Transfer\<rparr>, \<lparr>ID = 2, Action = MintAsset\<rparr>],
      Results = [\<lparr>Success = True, Units = 5\<rparr>],
      GetTimestamp = 1700000000\<rparr>"

text \<open>A block with one successful transaction whose action the type switch does not name.\<close>

definition other_action_block :: StatelessBlock where
  "other_action_block =
     \<lparr>Txs = [\<lparr>ID = 3, Action = OtherAction ''CloseOrder''\<rparr>],
      Results = [\<lparr>Success = True, Units = 1\<rparr>],
      GetTimestamp = 1700000001\<rparr>"

text \<open>A storage layer that works, one whose commit fails, one whose second write fails.\<close>

definition healthy :: faults where
  "healthy = \<lparr>put_fault = (\<lambda>i. None), write_fault = None\<rparr>"

definition commit_fails :: faults where
  "commit_fails = \<lparr>put_fault = (\<lambda>i. None), write_fault = Some (Error ''commit failed'')\<rparr>"

definition second_put_fails :: faults where
  "second_put_fails =
     \<lparr>put_fault = (\<lambda>i. if i = 1 then Some (Error ''put failed'') else None),
      write_fault = None\<rparr>"

text \<open>
  An environment of \<^verbatim>\<open>Initialize\<close> in which every call succeeds (a store handle is
  the path it was opened at), with default configurations that differ from the
  configured values in every field; and the same with a state store that does not open.
\<close>

definition sample_env :: "Config \<Rightarrow> (string, unit, unit) init_env" where
  "sample_env cfg =
     \<lparr>newMetrics = Inr no_counts,
      config_New = Inr cfg,
      genesis_New = Inr (Genesis ''genesis''),
      ChainDataDir = ''/data'',
      InitSubDirectory = (\<lambda>root name. Inr (root @ ''/'' @ name)),
      pebble_New = (\<lambda>path. Inr path),
      JSONRPCEndpoint = ''/api'',
      NewJSONRPCHandler = Inr (HTTPHandler ''jsonrpc''),
      DefaultTimeConfig = \<lparr>PreferredBlocksPerSecond = 3\<rparr>,
      DefaultProposerConfig =
        \<lparr>GossipInterval = 1000000000, GossipMaxSize = 2097152, GossipProposerDiff = 4,
         GossipProposerDepth = 1, BuildProposerDiff = 2, VerifyTimeout = 2500\<rparr>\<rparr>"

definition state_store_locked :: "(string, unit, unit) init_env" where
  "state_store_locked =
     (sample_env (sample_config False))
       \<lparr>pebble_New := (\<lambda>path. if path = ''/data/state'' then Inl (Error ''locked'') else Inr path)\<rparr>"

section \<open>Properties\<close>

subsection \<open>The storage faults\<close>

lemma no_fault_puts_ok: "(\<And>j. j < n \<Longrightarrow> pf (i + j) = None) \<Longrightarrow> puts_ok pf i n = n"
proof (induction n arbitrary: i)
  case 0
  then show ?case by simp
next
  case (Suc n)
  have "pf i = None" using Suc.prems [of 0] by simp
  moreover have "puts_ok pf (Suc i) n = n"
  proof (rule Suc.IH)
    fix j assume "j < n"
    then show "pf (Suc i + j) = None" using Suc.prems [of "Suc j"] by simp
  qed
  ultimately show ?case by simp
qed

lemma first_fault_None_iff: "first_fault pf i n = None \<longleftrightarrow> (\<forall>j<n. pf (i + j) = None)"
proof (induction n arbitrary: i)
  case 0
  then show ?case by simp
next
  case (Suc n)
  show ?case
  proof (cases "pf i")
    case None
    have "(\<forall>j<Suc n. pf (i + j) = None) \<longleftrightarrow> (\<forall>j<n. pf (Suc i + j) = None)"
      using None by (auto simp: less_Suc_eq_0_disj)
    then show ?thesis using None Suc.IH [of "Suc i"] by simp
  next
    case (Some e)
    then show ?thesis by auto
  qed
qed

lemma fault_at_puts_ok:
  "k < n \<Longrightarrow> (\<And>j. j < k \<Longrightarrow> pf (i + j) = None) \<Longrightarrow> pf (i + k) = Some e \<Longrightarrow>
     puts_ok pf i n = k \<and> first_fault pf i n = Some e"
proof (induction n arbitrary: i k)
  case 0
  then show ?case by simp
next
  case (Suc n)
  show ?case
  proof (cases k)
    case 0
    then show ?thesis using Suc.prems by simp
  next
    case (Suc k')
    have "pf i = None" using Suc.prems(2) [of 0] Suc by simp
    moreover have "puts_ok pf (Suc i) n = k' \<and> first_fault pf (Suc i) n = Some e"
    proof (rule Suc.IH)
      show "k' < n" using Suc.prems(1) Suc by simp
      show "pf (Suc i + k') = Some e" using Suc.prems(3) Suc by simp
      fix j assume "j < k'"
      then show "pf (Suc i + j) = None" using Suc.prems(2) [of "Suc j"] Suc by simp
    qed
    ultimately show ?thesis using Suc by simp
  qed
qed

subsection \<open>The loop of \<^verbatim>\<open>Accepted\<close>\<close>

lemma accept_loop_result:
  "accept_loop pf i txs results t b m = loop_result pf i txs results t b m"
proof (induction txs arbitrary: i b m)
  case Nil
  then show ?case by (simp add: loop_result_def)
next
  case (Cons tx txs)
  show ?case
  proof (cases "length results \<le> i")
    case True
    then show ?thesis by (simp add: loop_result_def)
  next
    case False
    then have dr: "drop i results = results ! i # drop (Suc i) results"
      by (simp add: Cons_nth_drop_Suc)
    show ?thesis
    proof (cases "pf i")
      case (Some e)
      then show ?thesis using False
        by (simp add: loop_result_def dr StoreTransaction_def)
    next
      case None
      have st: "StoreTransaction (pf i) b (ID tx) t (Success (results ! i)) (Units (results ! i))
                  = Inr (b @ [record_of t (tx, results ! i)])"
        by (simp add: None StoreTransaction_def record_of_def)
      have "accept_loop pf i (tx # txs) results t b m =
              accept_loop pf (Suc i) txs results t (b @ [record_of t (tx, results ! i)])
                (count_result m (tx, results ! i))"
        using False by (simp add: st count_result_def)
      also have "\<dots> = loop_result pf (Suc i) txs results t (b @ [record_of t (tx, results ! i)])
                (count_result m (tx, results ! i))"
        by (rule Cons.IH)
      also have "\<dots> = loop_result pf i (tx # txs) results t b m"
        using False by (auto simp: loop_result_def dr None Let_def split: option.splits)
      finally show ?thesis .
    qed
  qed
qed

subsection \<open>Counting\<close>

lemma count_result_add_counts: "count_result (add_counts m prs) p = add_counts m (prs @ [p])"
  by (cases "Action (fst p)") (simp_all add: count_result_def add_counts_def count_kind_def)

lemma add_counts_Nil: "add_counts m [] = m"
  by (simp add: add_counts_def count_kind_def)

lemma foldl_count_result: "foldl count_result m prs = add_counts m prs"
proof (induction prs rule: rev_induct)
  case Nil
  then show ?case by (simp add: add_counts_Nil)
next
  case (snoc p prs)
  then show ?case by (simp add: count_result_add_counts)
qed

lemma add_counts_append: "add_counts (add_counts m xs) ys = add_counts m (xs @ ys)"
  by (simp add: add_counts_def count_kind_def)

subsection \<open>The store after a commit\<close>

lemma dom_apply_writes: "dom (apply_writes db ws) = dom db \<union> fst ` set ws"
proof (induction ws arbitrary: db)
  case Nil
  then show ?case by simp
next
  case (Cons w ws)
  obtain k v where w: "w = (k, v)" by (cases w)
  have "apply_writes db (w # ws) = apply_writes (db(k \<mapsto> v)) ws"
    by (simp add: w)
  then have "dom (apply_writes db (w # ws)) = dom (db(k \<mapsto> v)) \<union> fst ` set ws"
    by (simp only: Cons.IH)
  also have "\<dots> = dom db \<union> fst ` set (w # ws)"
    by (simp add: w)
  finally show ?case .
qed

lemma apply_writes_other: "k \<notin> fst ` set ws \<Longrightarrow> apply_writes db ws k = db k"
  by (induction ws arbitrary: db) auto

lemma apply_writes_distinct:
  "distinct (map fst ws) \<Longrightarrow> (k, v) \<in> set ws \<Longrightarrow> apply_writes db ws k = Some v"
proof (induction ws arbitrary: db)
  case Nil
  then show ?case by simp
next
  case (Cons w ws)
  obtain k' v' where w: "w = (k', v')" by (cases w)
  show ?case
  proof (cases "(k, v) \<in> set ws")
    case True
    then show ?thesis using Cons w by simp
  next
    case False
    then have eq: "k = k'" "v = v'" using Cons.prems w by auto
    then have "k \<notin> fst ` set ws" using Cons.prems w by simp
    then show ?thesis using eq w by (simp add: apply_writes_other)
  qed
qed

lemma keys_indexed_records:
  "length (Txs blk) \<le> length (Results blk) \<Longrightarrow> map fst (indexed_records blk) = map ID (Txs blk)"
proof -
  assume len: "length (Txs blk) \<le> length (Results blk)"
  have "map fst (indexed_records blk) = map (ID \<circ> fst) (zip (Txs blk) (Results blk))"
    by (simp add: indexed_records_def record_of_def comp_def)
  also have "\<dots> = map ID (map fst (zip (Txs blk) (Results blk)))"
    by simp
  also have "map fst (zip (Txs blk) (Results blk)) = Txs blk"
    using len by (simp add: map_fst_zip_take)
  finally show ?thesis .
qed

lemma nth_indexed_records:
  "i < length (Txs blk) \<Longrightarrow> i < length (Results blk) \<Longrightarrow>
     indexed_records blk ! i =
       (ID (Txs blk ! i),
        \<lparr>timestamp = GetTimestamp blk, success = Success (Results blk ! i),
         units = Units (Results blk ! i)\<rparr>)"
  by (simp add: indexed_records_def record_of_def)

subsection \<open>\<^verbatim>\<open>Accepted\<close> in closed form\<close>

lemma Accepted_result:
  "Accepted env c blk =
     (case loop_result (put_fault env) 0 (Txs blk) (Results blk) (GetTimestamp blk) [] (metrics c) of
        (IndexOutOfRange, m) \<Rightarrow> (Panic, c\<lparr>metrics := m\<rparr>)
      | (Failed err, m) \<Rightarrow> (Returned (Some err), c\<lparr>metrics := m\<rparr>)
      | (Done b, m) \<Rightarrow>
          (case Write (write_fault env) b (metaDB c) of
             (r, db) \<Rightarrow> (Returned r, c\<lparr>metrics := m, metaDB := db\<rparr>)))"
  by (simp add: Accepted_def accept_loop_result NewBatch_def)

lemma Accepted_metrics:
  "metrics (snd (Accepted env c blk)) = add_counts (metrics c) (reached env blk)"
  by (simp add: Accepted_result loop_result_def Write_def Let_def
      reached_def foldl_count_result split: option.splits prod.splits loop_exit.splits)

lemma Accepted_no_put_fault:
  assumes len: "length (Txs blk) \<le> length (Results blk)"
    and ok: "\<And>i. i < length (Txs blk) \<Longrightarrow> put_fault env i = None"
  shows "Accepted env c blk =
     (Returned (write_fault env),
      c\<lparr>metrics := add_counts (metrics c) (zip (Txs blk) (Results blk)),
        metaDB := (case write_fault env of
                     None \<Rightarrow> apply_writes (metaDB c) (indexed_records blk)
                   | Some e \<Rightarrow> metaDB c)\<rparr>)"
proof -
  let ?prs = "zip (Txs blk) (Results blk)"
  have n: "length ?prs = length (Txs blk)" using len by simp
  have nf: "\<And>j. j < length ?prs \<Longrightarrow> put_fault env (0 + j) = None"
    using ok n by simp
  have p: "puts_ok (put_fault env) 0 (length ?prs) = length ?prs"
    using nf by (rule no_fault_puts_ok)
  have f: "first_fault (put_fault env) 0 (length ?prs) = None"
    using nf by (simp only: first_fault_None_iff) blast
  have "loop_result (put_fault env) 0 (Txs blk) (Results blk) (GetTimestamp blk) [] (metrics c) =
          (Done (indexed_records blk), add_counts (metrics c) ?prs)"
    using len p f n by (simp add: loop_result_def indexed_records_def foldl_count_result Let_def)
  then show ?thesis
    by (cases "write_fault env") (simp_all add: Accepted_result Write_def)
qed

lemma Accepted_put_fault:
  assumes k: "k < length (Txs blk)" "k < length (Results blk)"
    and ok: "\<And>j. j < k \<Longrightarrow> put_fault env j = None"
    and bad: "put_fault env k = Some e"
  shows "Accepted env c blk =
     (Returned (Some e),
      c\<lparr>metrics := add_counts (metrics c) (take k (zip (Txs blk) (Results blk)))\<rparr>)"
proof -
  let ?prs = "zip (Txs blk) (Results blk)"
  have n: "k < length ?prs" using k by simp
  have "puts_ok (put_fault env) 0 (length ?prs) = k \<and>
        first_fault (put_fault env) 0 (length ?prs) = Some e"
    using n ok bad by (intro fault_at_puts_ok) simp_all
  then have "loop_result (put_fault env) 0 (Txs blk) (Results blk) (GetTimestamp blk) [] (metrics c) =
          (Failed e, add_counts (metrics c) (take k ?prs))"
    by (simp add: loop_result_def foldl_count_result)
  then show ?thesis
    by (simp add: Accepted_result)
qed

lemma Accepted_Returned_None:
  assumes "Accepted env c blk = (Returned None, c')"
  shows "length (Txs blk) \<le> length (Results blk) \<and>
         metaDB c' = apply_writes (metaDB c) (indexed_records blk)"
  using assms
  by (auto simp: Accepted_result loop_result_def Write_def Let_def indexed_records_def
      split: option.splits if_splits)

lemma Accepted_not_committed:
  assumes "Accepted env c blk = (out, c')" "out \<noteq> Returned None"
  shows "metaDB c' = metaDB c"
  using assms
  by (auto simp: Accepted_result loop_result_def Write_def Let_def
      split: option.splits if_splits)

lemma Accepted_Panic_iff:
  "fst (Accepted env c blk) = Panic \<longleftrightarrow>
     length (Results blk) < length (Txs blk) \<and> (\<forall>j<length (Results blk). put_fault env j = None)"
proof -
  let ?n = "length (zip (Txs blk) (Results blk))"
  have ff: "first_fault (put_fault env) 0 ?n = None \<longleftrightarrow> (\<forall>j<?n. put_fault env j = None)"
    by (simp only: first_fault_None_iff add_0)
  have "fst (Accepted env c blk) = Panic \<longleftrightarrow>
          first_fault (put_fault env) 0 ?n = None \<and> length (Results blk) < length (Txs blk)"
    by (simp add: Accepted_result loop_result_def Write_def Let_def
        split: option.splits)
  also have "\<dots> \<longleftrightarrow>
      length (Results blk) < length (Txs blk) \<and> (\<forall>j<length (Results blk). put_fault env j = None)"
    unfolding ff by (auto simp: min_def)
  finally show ?thesis .
qed

subsection \<open>Runs on the sample data\<close>

lemmas run_defs =
  Accepted_def NewBatch_def StoreTransaction_def Write_def Let_def
  healthy_def commit_fails_def second_put_fails_def
  fresh_def no_counts_def scenario_block_def two_transfers_def empty_block_def short_results_def

lemma run_scenario_healthy:
  "Accepted healthy fresh scenario_block =
     (Returned None,
      fresh\<lparr>metrics := no_counts\<lparr>transfer := 1\<rparr>,
            metaDB := [1 \<mapsto> \<lparr>timestamp = 1700000000, success = True, units = 5\<rparr>,
                       2 \<mapsto> \<lparr>timestamp = 1700000000, success = False, units = 0\<rparr>]\<rparr>)"
  by (simp add: run_defs)

lemma run_scenario_second_put_fails:
  "Accepted second_put_fails fresh scenario_block =
     (Returned (Some (Error ''put failed'')), fresh\<lparr>metrics := no_counts\<lparr>transfer := 1\<rparr>\<rparr>)"
  by (simp add: run_defs)

lemma run_scenario_commit_fails:
  "Accepted commit_fails fresh scenario_block =
     (Returned (Some (Error ''commit failed'')), fresh\<lparr>metrics := no_counts\<lparr>transfer := 1\<rparr>\<rparr>)"
  by (simp add: run_defs)

lemma run_short_results:
  "Accepted healthy fresh short_results = (Panic, fresh\<lparr>metrics := no_counts\<lparr>transfer := 1\<rparr>\<rparr>)"
  by (simp add: run_defs)

lemma run_two_transfers_second_put_fails:
  "Accepted second_put_fails fresh two_transfers =
     (Returned (Some (Error ''put failed'')), fresh\<lparr>metrics := no_counts\<lparr>transfer := 1\<rparr>\<rparr>)"
  by (simp add: run_defs)

lemma run_empty_commit_fails:
  "Accepted commit_fails fresh empty_block = (Returned (Some (Error ''commit failed'')), fresh)"
  by (simp add: run_defs)

lemma reached_whole_block:
  assumes "length (Txs blk) \<le> length (Results blk)"
    and "\<forall>i<length (Txs blk). put_fault env i = None"
  shows "reached env blk = zip (Txs blk) (Results blk)"
proof -
  have "puts_ok (put_fault env) 0 (length (zip (Txs blk) (Results blk))) =
          length (zip (Txs blk) (Results blk))"
    using assms by (intro no_fault_puts_ok) simp
  then show ?thesis by (simp add: reached_def)
qed

subsection \<open>\<^verbatim>\<open>Initialize\<close> when it succeeds, and runs on the sample environments\<close>

lemma Initialize_Inr:
  assumes "Initialize env = Inr (parts, c)"
  shows "config_New env = Inr (vm_Config parts) \<and>
         vm_Builder parts = fst (create_builder_gossiper env (vm_Config parts)) \<and>
         vm_Gossiper parts = snd (create_builder_gossiper env (vm_Config parts))"
  using assms by (auto simp: Initialize_def Let_def split: sum.splits)

lemma run_sample_env:
  "Initialize (sample_env cfg) =
     Inr (\<lparr>vm_Config = cfg, vm_Genesis = Genesis ''genesis'',
           vm_Builder = fst (create_builder_gossiper (sample_env cfg) cfg),
           vm_Gossiper = snd (create_builder_gossiper (sample_env cfg) cfg),
           vm_blockDB = ''/data/block'', vm_stateDB = ''/data/state'',
           vm_Handlers = [''/api'' \<mapsto> HTTPHandler ''jsonrpc'']\<rparr>,
          \<lparr>genesis = Genesis ''genesis'', config = cfg, metrics = no_counts,
           metaDB = ''/data/metadata''\<rparr>)"
  by (simp add: Initialize_def sample_env_def Let_def)

lemma run_state_store_locked: "Initialize state_store_locked = Inl (Error ''locked'')"
  by (simp add: Initialize_def state_store_locked_def sample_env_def)

section \<open>The claims\<close>

subsection \<open>Atomic indexing\<close>

text \<open>
  Claim C1. Whatever the storage layer does: if \<^verbatim>\<open>Accepted\<close> returns \<^verbatim>\<open>nil\<close>
  for a block of \<open>N\<close> transactions, the store is the old store with exactly \<open>N\<close>
  writes applied, the \<open>i\<close>-th keyed by the identifier of the \<open>i\<close>-th transaction;
  the keys of the store are the old keys and these identifiers; and when the
  identifiers differ from one another (as transaction hashes of one block do) they
  are \<open>N\<close> keys, each holding the record of its own transaction. If the call ends in
  any other way (an error at some transaction, an error of the commit, a panic) the
  store is the store as it was.
\<close>

theorem Accepted_atomic:
  assumes "Accepted env c blk = (out, c')"
  shows "(out = Returned None \<longrightarrow>
            length (indexed_records blk) = length (Txs blk) \<and>
            map fst (indexed_records blk) = map ID (Txs blk) \<and>
            metaDB c' = apply_writes (metaDB c) (indexed_records blk) \<and>
            dom (metaDB c') = dom (metaDB c) \<union> ID ` set (Txs blk) \<and>
            (distinct (map ID (Txs blk)) \<longrightarrow>
               card (ID ` set (Txs blk)) = length (Txs blk) \<and>
               (\<forall>i<length (Txs blk).
                  metaDB c' (ID (Txs blk ! i)) =
                    Some \<lparr>timestamp = GetTimestamp blk, success = Success (Results blk ! i),
                          units = Units (Results blk ! i)\<rparr>))) \<and>
         (out \<noteq> Returned None \<longrightarrow> metaDB c' = metaDB c)"
proof (intro conjI impI)
  assume "out \<noteq> Returned None"
  with assms show "metaDB c' = metaDB c"
    by (rule Accepted_not_committed)
next
  assume "out = Returned None"
  with assms have run: "Accepted env c blk = (Returned None, c')"
    by simp
  from Accepted_Returned_None [OF run]
  have len: "length (Txs blk) \<le> length (Results blk)"
    and db: "metaDB c' = apply_writes (metaDB c) (indexed_records blk)"
    by simp_all
  have keys: "map fst (indexed_records blk) = map ID (Txs blk)"
    using len by (rule keys_indexed_records)
  show "length (indexed_records blk) = length (Txs blk)"
    using len by (simp add: indexed_records_def)
  show "map fst (indexed_records blk) = map ID (Txs blk)"
    by (rule keys)
  show "metaDB c' = apply_writes (metaDB c) (indexed_records blk)"
    by (rule db)
  have "fst ` set (indexed_records blk) = ID ` set (Txs blk)"
    using arg_cong [OF keys, of set] by simp
  then show "dom (metaDB c') = dom (metaDB c) \<union> ID ` set (Txs blk)"
    by (simp add: db dom_apply_writes)
  {
    assume dist: "distinct (map ID (Txs blk))"
    then show "card (ID ` set (Txs blk)) = length (Txs blk)"
      using distinct_card [of "map ID (Txs blk)"] by simp
    show "\<forall>i<length (Txs blk).
            metaDB c' (ID (Txs blk ! i)) =
              Some \<lparr>timestamp = GetTimestamp blk, success = Success (Results blk ! i),
                    units = Units (Results blk ! i)\<rparr>"
    proof (intro allI impI)
      fix i assume i: "i < length (Txs blk)"
      then have i': "i < length (Results blk)" using len by simp
      have "i < length (indexed_records blk)"
        using i len by (simp add: indexed_records_def)
      then have "indexed_records blk ! i \<in> set (indexed_records blk)"
        by simp
      then have "(ID (Txs blk ! i),
                  \<lparr>timestamp = GetTimestamp blk, success = Success (Results blk ! i),
                   units = Units (Results blk ! i)\<rparr>) \<in> set (indexed_records blk)"
        by (simp add: nth_indexed_records [OF i i'])
      moreover have "distinct (map fst (indexed_records blk))"
        using dist keys by simp
      ultimately show "metaDB c' (ID (Txs blk ! i)) =
              Some \<lparr>timestamp = GetTimestamp blk, success = Success (Results blk ! i),
                    units = Units (Results blk ! i)\<rparr>"
        unfolding db by (rule apply_writes_distinct [rotated])
    qed
  }
qed

theorem Accepted_atomic_witness:
  "fst (Accepted healthy fresh scenario_block) = Returned None \<and>
   distinct (map ID (Txs scenario_block)) \<and>
   metaDB (snd (Accepted healthy fresh scenario_block)) 1 =
     Some \<lparr>timestamp = 1700000000, success = True, units = 5\<rparr> \<and>
   metaDB (snd (Accepted healthy fresh scenario_block)) 2 =
     Some \<lparr>timestamp = 1700000000, success = False, units = 0\<rparr> \<and>
   dom (metaDB (snd (Accepted healthy fresh scenario_block))) = {1, 2} \<and>
   fst (Accepted second_put_fails fresh scenario_block) = Returned (Some (Error ''put failed'')) \<and>
   metaDB (snd (Accepted second_put_fails fresh scenario_block)) = Map.empty"
proof -
  define c1 where "c1 = snd (Accepted healthy fresh scenario_block)"
  define c2 where "c2 = snd (Accepted second_put_fails fresh scenario_block)"
  have run1: "Accepted healthy fresh scenario_block = (Returned None, c1)"
    and run2: "Accepted second_put_fails fresh scenario_block =
                 (Returned (Some (Error ''put failed'')), c2)"
    by (simp_all add: c1_def c2_def run_scenario_healthy run_scenario_second_put_fails)
  have d: "distinct (map ID (Txs scenario_block))"
    by (simp add: scenario_block_def)
  from Accepted_atomic [OF run1] d have
    dm: "dom (metaDB c1) = dom (metaDB fresh) \<union> ID ` set (Txs scenario_block)" and
    look: "\<forall>i<length (Txs scenario_block).
             metaDB c1 (ID (Txs scenario_block ! i)) =
               Some \<lparr>timestamp = GetTimestamp scenario_block,
                     success = Success (Results scenario_block ! i),
                     units = Units (Results scenario_block ! i)\<rparr>"
    by blast+
  from look [rule_format, of 0]
  have r1: "metaDB c1 1 = Some \<lparr>timestamp = 1700000000, success = True, units = 5\<rparr>"
    by (simp add: scenario_block_def)
  from look [rule_format, of 1]
  have r2: "metaDB c1 2 = Some \<lparr>timestamp = 1700000000, success = False, units = 0\<rparr>"
    by (simp add: scenario_block_def)
  from dm have r3: "dom (metaDB c1) = {1, 2}"
    by (simp add: scenario_block_def fresh_def insert_commute)
  from Accepted_atomic [OF run2] have r4: "metaDB c2 = Map.empty"
    by (simp add: fresh_def)
  have f1: "fst (Accepted healthy fresh scenario_block) = Returned None"
    and f2: "fst (Accepted second_put_fails fresh scenario_block) =
               Returned (Some (Error ''put failed''))"
    by (simp_all add: run1 run2)
  show ?thesis
    using f1 f2 d r1 r2 r3 r4 unfolding c1_def c2_def by blast
qed

subsection \<open>Counter conservation\<close>

text \<open>
  Claim C2, as stated, fails when a write fails inside a block: the second of two
  successful transfers is never counted, because \<^verbatim>\<open>Accepted\<close> returns at the failed
  write of its record. The counter stands at 1, the block holds 2 successful transfers.
\<close>

theorem counter_conservation_counterexample:
  "Accepted_all fresh [(second_put_fails, two_transfers)] =
     fresh\<lparr>metrics := no_counts\<lparr>transfer := 1\<rparr>\<rparr> \<and>
   transfer (metrics (Accepted_all fresh [(second_put_fails, two_transfers)])) = 1 \<and>
   count_kind Transfer (zip (Txs two_transfers) (Results two_transfers)) = 2"
  by (simp add: run_two_transfers_second_put_fails)
     (simp add: count_kind_def two_transfers_def no_counts_def)

text \<open>
  Claim C2, amended. After any sequence of calls of \<^verbatim>\<open>Accepted\<close>, whatever the
  storage layer did, each counter has grown by the number of successful transactions
  of its action kind among the transactions reached, that is, those before the first
  failing write of their block. Nothing else changes a counter: not an unsuccessful
  transaction, not a transaction of another action kind. When every block has a result
  for each transaction and no write fails (the commits may fail), these are all the
  transactions of all the blocks.
\<close>

theorem counters_count_reached:
  "metrics (Accepted_all c runs) =
     add_counts (metrics c) (concat (map (\<lambda>(env, blk). reached env blk) runs)) \<and>
   ((\<forall>(env, blk)\<in>set runs.
        length (Txs blk) \<le> length (Results blk) \<and>
        (\<forall>i<length (Txs blk). put_fault env i = None)) \<longrightarrow>
    metrics (Accepted_all c runs) =
      add_counts (metrics c) (concat (map (\<lambda>(env, blk). zip (Txs blk) (Results blk)) runs)))"
proof -
  have gen: "metrics (Accepted_all c runs) =
     add_counts (metrics c) (concat (map (\<lambda>(env, blk). reached env blk) runs))" for c
  proof (induction runs arbitrary: c)
    case Nil
    then show ?case by (simp add: add_counts_Nil)
  next
    case (Cons r runs)
    obtain env blk where r: "r = (env, blk)" by (cases r)
    have "metrics (Accepted_all c (r # runs)) =
            add_counts (metrics (snd (Accepted env c blk)))
              (concat (map (\<lambda>(env, blk). reached env blk) runs))"
      using Cons.IH [of "snd (Accepted env c blk)"] r by simp
    also have "\<dots> = add_counts (add_counts (metrics c) (reached env blk))
              (concat (map (\<lambda>(env, blk). reached env blk) runs))"
      by (simp only: Accepted_metrics)
    also have "\<dots> = add_counts (metrics c)
              (concat (map (\<lambda>(env, blk). reached env blk) (r # runs)))"
      by (simp add: add_counts_append r)
    finally show ?case .
  qed
  have eq: "map (\<lambda>(env, blk). reached env blk) runs =
          map (\<lambda>(env, blk). zip (Txs blk) (Results blk)) runs"
    if "\<forall>(env, blk)\<in>set runs.
          length (Txs blk) \<le> length (Results blk) \<and>
          (\<forall>i<length (Txs blk). put_fault env i = None)"
    using that by (intro map_cong refl) (auto simp: reached_whole_block)
  show ?thesis
  proof (intro conjI impI)
    show "metrics (Accepted_all c runs) =
      add_counts (metrics c) (concat (map (\<lambda>(env, blk). reached env blk) runs))"
      by (rule gen)
    assume "\<forall>(env, blk)\<in>set runs.
          length (Txs blk) \<le> length (Results blk) \<and>
          (\<forall>i<length (Txs blk). put_fault env i = None)"
    then show "metrics (Accepted_all c runs) =
      add_counts (metrics c) (concat (map (\<lambda>(env, blk). zip (Txs blk) (Results blk)) runs))"
      by (simp only: gen eq)
  qed
qed

theorem counters_count_reached_witness:
  "length (Txs scenario_block) \<le> length (Results scenario_block) \<and>
   length (Txs two_transfers) \<le> length (Results two_transfers) \<and>
   length (Txs other_action_block) \<le> length (Results other_action_block) \<and>
   put_fault healthy 0 = None \<and> put_fault healthy 1 = None \<and>
   put_fault commit_fails 0 = None \<and> put_fault commit_fails 1 = None \<and>
   metrics (Accepted_all fresh [(healthy, scenario_block), (commit_fails, two_transfers),
                                (healthy, other_action_block)]) =
     no_counts\<lparr>transfer := 3\<rparr>"
proof -
  let ?runs = "[(healthy, scenario_block), (commit_fails, two_transfers),
                (healthy, other_action_block)]"
  have h: "\<forall>(env, blk)\<in>set ?runs.
        length (Txs blk) \<le> length (Results blk) \<and>
        (\<forall>i<length (Txs blk). put_fault env i = None)"
    by (simp add: healthy_def commit_fails_def scenario_block_def two_transfers_def
        other_action_block_def)
  have l: "length (Txs scenario_block) \<le> length (Results scenario_block)"
    "length (Txs two_transfers) \<le> length (Results two_transfers)"
    "length (Txs other_action_block) \<le> length (Results other_action_block)"
    "put_fault healthy 0 = None" "put_fault healthy 1 = None"
    "put_fault commit_fails 0 = None" "put_fault commit_fails 1 = None"
    by (simp_all add: healthy_def commit_fails_def scenario_block_def two_transfers_def
        other_action_block_def)
  from counters_count_reached [of fresh ?runs] h
  have "metrics (Accepted_all fresh ?runs) =
      add_counts (metrics fresh) (concat (map (\<lambda>(env, blk). zip (Txs blk) (Results blk)) ?runs))"
    by blast
  also have "\<dots> = no_counts\<lparr>transfer := 3\<rparr>"
    by (simp add: add_counts_def count_kind_def fresh_def no_counts_def scenario_block_def
        two_transfers_def other_action_block_def)
  finally show ?thesis
    using l by blast
qed

subsection \<open>Selection of the strategies\<close>

text \<open>
  Claim C3, as stated, fails for a configured zero: with \<^verbatim>\<open>TestMode\<close> false, a
  gossip interval of 0 in the configuration and a default of 1000000000, the selected
  gossiper runs with the interval 0, not with the default.
\<close>

theorem zero_value_counterexample:
  "\<not> TestMode (sample_config False) \<and>
   Config.GossipInterval (sample_config False) = 0 \<and>
   GossipInterval (DefaultProposerConfig (sample_env (sample_config False))) = 1000000000 \<and>
   \<not> isl (Initialize (sample_env (sample_config False))) \<and>
   vm_Gossiper (fst (projr (Initialize (sample_env (sample_config False))))) =
     ProposerGossiper
       \<lparr>GossipInterval = 0, GossipMaxSize = 1024, GossipProposerDiff = 3,
        GossipProposerDepth = 2, BuildProposerDiff = 5, VerifyTimeout = 10\<rparr>"
  by (simp add: run_sample_env)
     (simp add: create_builder_gossiper_def sample_config_def sample_env_def)

text \<open>
  Claim C3, amended. With \<^verbatim>\<open>TestMode\<close> false the selection cannot fail (when the
  calls before it succeed, \<^verbatim>\<open>Initialize\<close> succeeds), and every tuning field of the
  selected strategies holds the value of the configuration object, whatever it is, a
  zero included: lines 154-162 assign without a test. The fields of the default
  configurations that are not assigned stand. Defaults for options that the
  configuration file leaves out are the business of the configuration loader.
\<close>

theorem configured_values_override:
  assumes "newMetrics env = Inr ms" and "config_New env = Inr cfg"
    and "genesis_New env = Inr gen"
    and "open_store env ''block'' = Inr blockDB"
    and "open_store env ''state'' = Inr stateDB"
    and "open_store env ''metadata'' = Inr mdb"
    and "NewJSONRPCHandler env = Inr h"
    and "\<not> TestMode cfg"
  shows "Initialize env =
     Inr (\<lparr>vm_Config = cfg, vm_Genesis = gen,
           vm_Builder = TimeBuilder ((DefaultTimeConfig env)
             \<lparr>PreferredBlocksPerSecond := GetPreferredBlocksPerSecond cfg\<rparr>),
           vm_Gossiper = ProposerGossiper ((DefaultProposerConfig env)
             \<lparr>GossipInterval := Config.GossipInterval cfg,
              GossipMaxSize := Config.GossipMaxSize cfg,
              GossipProposerDiff := Config.GossipProposerDiff cfg,
              GossipProposerDepth := Config.GossipProposerDepth cfg,
              BuildProposerDiff := Config.BuildProposerDiff cfg,
              VerifyTimeout := Config.VerifyTimeout cfg\<rparr>),
           vm_blockDB = blockDB, vm_stateDB = stateDB,
           vm_Handlers = [JSONRPCEndpoint env \<mapsto> h]\<rparr>,
          \<lparr>genesis = gen, config = cfg, metrics = ms, metaDB = mdb\<rparr>)"
  using assms
  by (auto simp: open_store_def Initialize_def create_builder_gossiper_def Let_def
      split: sum.splits)

theorem configured_values_override_witness:
  "newMetrics (sample_env (sample_config False)) = Inr no_counts \<and>
   config_New (sample_env (sample_config False)) = Inr (sample_config False) \<and>
   genesis_New (sample_env (sample_config False)) = Inr (Genesis ''genesis'') \<and>
   open_store (sample_env (sample_config False)) ''block'' = Inr ''/data/block'' \<and>
   open_store (sample_env (sample_config False)) ''state'' = Inr ''/data/state'' \<and>
   open_store (sample_env (sample_config False)) ''metadata'' = Inr ''/data/metadata'' \<and>
   NewJSONRPCHandler (sample_env (sample_config False)) = Inr (HTTPHandler ''jsonrpc'') \<and>
   \<not> TestMode (sample_config False) \<and>
   Initialize (sample_env (sample_config False)) =
     Inr (\<lparr>vm_Config = sample_config False, vm_Genesis = Genesis ''genesis'',
           vm_Builder = TimeBuilder \<lparr>PreferredBlocksPerSecond = 7\<rparr>,
           vm_Gossiper = ProposerGossiper
             \<lparr>GossipInterval = 0, GossipMaxSize = 1024, GossipProposerDiff = 3,
              GossipProposerDepth = 2, BuildProposerDiff = 5, VerifyTimeout = 10\<rparr>,
           vm_blockDB = ''/data/block'', vm_stateDB = ''/data/state'',
           vm_Handlers = [''/api'' \<mapsto> HTTPHandler ''jsonrpc'']\<rparr>,
          \<lparr>genesis = Genesis ''genesis'', config = sample_config False, metrics = no_counts,
           metaDB = ''/data/metadata''\<rparr>)"
proof -
  let ?env = "sample_env (sample_config False)"
  have h: "newMetrics ?env = Inr no_counts"
    "config_New ?env = Inr (sample_config False)"
    "genesis_New ?env = Inr (Genesis ''genesis'')"
    "open_store ?env ''block'' = Inr ''/data/block''"
    "open_store ?env ''state'' = Inr ''/data/state''"
    "open_store ?env ''metadata'' = Inr ''/data/metadata''"
    "NewJSONRPCHandler ?env = Inr (HTTPHandler ''jsonrpc'')"
    "\<not> TestMode (sample_config False)"
    by (simp_all add: sample_env_def open_store_def sample_config_def)
  note r = configured_values_override [OF h]
  have v: "(DefaultTimeConfig ?env)\<lparr>PreferredBlocksPerSecond :=
              GetPreferredBlocksPerSecond (sample_config False)\<rparr> =
            \<lparr>PreferredBlocksPerSecond = 7\<rparr>"
    "(DefaultProposerConfig ?env)
             \<lparr>GossipInterval := Config.GossipInterval (sample_config False),
              GossipMaxSize := Config.GossipMaxSize (sample_config False),
              GossipProposerDiff := Config.GossipProposerDiff (sample_config False),
              GossipProposerDepth := Config.GossipProposerDepth (sample_config False),
              BuildProposerDiff := Config.BuildProposerDiff (sample_config False),
              VerifyTimeout := Config.VerifyTimeout (sample_config False)\<rparr> =
            \<lparr>GossipInterval = 0, GossipMaxSize = 1024, GossipProposerDiff = 3,
              GossipProposerDepth = 2, BuildProposerDiff = 5, VerifyTimeout = 10\<rparr>"
    "JSONRPCEndpoint ?env = ''/api''"
    by (simp_all add: sample_env_def sample_config_def)
  from r have "Initialize ?env =
     Inr (\<lparr>vm_Config = sample_config False, vm_Genesis = Genesis ''genesis'',
           vm_Builder = TimeBuilder \<lparr>PreferredBlocksPerSecond = 7\<rparr>,
           vm_Gossiper = ProposerGossiper
             \<lparr>GossipInterval = 0, GossipMaxSize = 1024, GossipProposerDiff = 3,
              GossipProposerDepth = 2, BuildProposerDiff = 5, VerifyTimeout = 10\<rparr>,
           vm_blockDB = ''/data/block'', vm_stateDB = ''/data/state'',
           vm_Handlers = [''/api'' \<mapsto> HTTPHandler ''jsonrpc'']\<rparr>,
          \<lparr>genesis = Genesis ''genesis'', config = sample_config False, metrics = no_counts,
           metaDB = ''/data/metadata''\<rparr>)"
    by (simp only: v)
  with h show ?thesis by blast
qed

text \<open>
  Claim C4. The selection of lines 148-164 depends on \<^verbatim>\<open>TestMode\<close> alone: for every
  configuration and all defaults it gives the manual builder and the manual gossiper
  when the flag is set, the timed builder and the proposer gossiper when it is not.
  Whenever \<^verbatim>\<open>Initialize\<close> succeeds, the configuration it returns is the parsed one
  and the strategies it returns are this selection.
\<close>

theorem strategy_by_TestMode:
  "(TestMode cfg \<longrightarrow> create_builder_gossiper env cfg = (ManualBuilder, ManualGossiper)) \<and>
   (\<not> TestMode cfg \<longrightarrow>
      (\<exists>bcfg gcfg. create_builder_gossiper env cfg = (TimeBuilder bcfg, ProposerGossiper gcfg))) \<and>
   (Initialize env = Inr (parts, c) \<longrightarrow>
      config_New env = Inr (vm_Config parts) \<and>
      (if TestMode (vm_Config parts)
       then vm_Builder parts = ManualBuilder \<and> vm_Gossiper parts = ManualGossiper
       else (\<exists>bcfg. vm_Builder parts = TimeBuilder bcfg) \<and>
            (\<exists>gcfg. vm_Gossiper parts = ProposerGossiper gcfg)))"
proof (intro conjI impI)
  assume "TestMode cfg"
  then show "create_builder_gossiper env cfg = (ManualBuilder, ManualGossiper)"
    by (simp add: create_builder_gossiper_def)
next
  assume "\<not> TestMode cfg"
  then show "\<exists>bcfg gcfg. create_builder_gossiper env cfg = (TimeBuilder bcfg, ProposerGossiper gcfg)"
    by (simp add: create_builder_gossiper_def Let_def)
next
  assume run: "Initialize env = Inr (parts, c)"
  from Initialize_Inr [OF run] show "config_New env = Inr (vm_Config parts)"
    by simp
  from Initialize_Inr [OF run]
  show "if TestMode (vm_Config parts)
        then vm_Builder parts = ManualBuilder \<and> vm_Gossiper parts = ManualGossiper
        else (\<exists>bcfg. vm_Builder parts = TimeBuilder bcfg) \<and>
             (\<exists>gcfg. vm_Gossiper parts = ProposerGossiper gcfg)"
    by (simp add: create_builder_gossiper_def Let_def)
qed

theorem strategy_by_TestMode_witness:
  "TestMode (sample_config True) \<and>
   create_builder_gossiper (sample_env (sample_config True)) (sample_config True) =
     (ManualBuilder, ManualGossiper) \<and>
   \<not> isl (Initialize (sample_env (sample_config True))) \<and>
   TestMode (vm_Config (fst (projr (Initialize (sample_env (sample_config True)))))) \<and>
   vm_Builder (fst (projr (Initialize (sample_env (sample_config True))))) = ManualBuilder \<and>
   vm_Gossiper (fst (projr (Initialize (sample_env (sample_config True))))) = ManualGossiper \<and>
   \<not> TestMode (sample_config False) \<and>
   \<not> isl (Initialize (sample_env (sample_config False))) \<and>
   \<not> TestMode (vm_Config (fst (projr (Initialize (sample_env (sample_config False)))))) \<and>
   vm_Builder (fst (projr (Initialize (sample_env (sample_config False))))) =
     TimeBuilder \<lparr>PreferredBlocksPerSecond = 7\<rparr> \<and>
   vm_Gossiper (fst (projr (Initialize (sample_env (sample_config False))))) =
     ProposerGossiper
       \<lparr>GossipInterval = 0, GossipMaxSize = 1024, GossipProposerDiff = 3,
        GossipProposerDepth = 2, BuildProposerDiff = 5, VerifyTimeout = 10\<rparr>"
proof -
  define r1 where "r1 = projr (Initialize (sample_env (sample_config True)))"
  define r2 where "r2 = projr (Initialize (sample_env (sample_config False)))"
  have i1: "Initialize (sample_env (sample_config True)) = Inr (fst r1, snd r1)"
    and i2: "Initialize (sample_env (sample_config False)) = Inr (fst r2, snd r2)"
    by (simp_all add: r1_def r2_def run_sample_env)
  have s1: "TestMode (sample_config True)" and s2: "\<not> TestMode (sample_config False)"
    by (simp_all add: sample_config_def)
  have t1: "TestMode (vm_Config (fst r1))" and t2: "\<not> TestMode (vm_Config (fst r2))"
    by (simp_all add: r1_def r2_def run_sample_env sample_config_def)
  note sel1 = strategy_by_TestMode
    [of "sample_config True" "sample_env (sample_config True)" "fst r1" "snd r1"]
  note sel2 = strategy_by_TestMode
    [of "sample_config False" "sample_env (sample_config False)" "fst r2" "snd r2"]
  from sel1 s1
  have k: "create_builder_gossiper (sample_env (sample_config True)) (sample_config True) =
     (ManualBuilder, ManualGossiper)"
    by blast
  from sel1 i1 t1
  have m: "vm_Builder (fst r1) = ManualBuilder" "vm_Gossiper (fst r1) = ManualGossiper"
    by simp_all
  from sel2 i2 t2
  have "(\<exists>bcfg. vm_Builder (fst r2) = TimeBuilder bcfg) \<and>
        (\<exists>gcfg. vm_Gossiper (fst r2) = ProposerGossiper gcfg)"
    by simp
  moreover have "vm_Builder (fst r2) = fst (create_builder_gossiper
        (sample_env (sample_config False)) (sample_config False))"
    and "vm_Gossiper (fst r2) = snd (create_builder_gossiper
        (sample_env (sample_config False)) (sample_config False))"
    by (simp_all add: r2_def run_sample_env)
  ultimately have p: "vm_Builder (fst r2) = TimeBuilder \<lparr>PreferredBlocksPerSecond = 7\<rparr>"
    "vm_Gossiper (fst r2) =
       ProposerGossiper
         \<lparr>GossipInterval = 0, GossipMaxSize = 1024, GossipProposerDiff = 3,
          GossipProposerDepth = 2, BuildProposerDiff = 5, VerifyTimeout = 10\<rparr>"
    by (simp_all add: create_builder_gossiper_def sample_config_def sample_env_def)
  have n: "\<not> isl (Initialize (sample_env (sample_config True)))"
    "\<not> isl (Initialize (sample_env (sample_config False)))"
    by (simp_all add: i1 i2)
  show ?thesis
    using s1 s2 k n t1 t2 m p unfolding r1_def r2_def by blast
qed

subsection \<open>Failures\<close>

text \<open>
  Claim C5. When the loop gets through the block (a result for every transaction, no
  failing write) and the final commit fails with \<open>e\<close>, the call returns \<open>e\<close> as it is,
  the store is unchanged, and the counters have been raised for every successful
  transaction of the block all the same. The sample run ends with one counted
  transfer and an empty store.
\<close>

theorem commit_failure_keeps_counters:
  assumes "length (Txs blk) \<le> length (Results blk)"
    and "\<forall>i<length (Txs blk). put_fault env i = None"
    and "write_fault env = Some e"
  shows "Accepted env c blk =
           (Returned (Some e),
            c\<lparr>metrics := add_counts (metrics c) (zip (Txs blk) (Results blk))\<rparr>)"
  using Accepted_no_put_fault [of blk env c] assms by simp

theorem commit_failure_keeps_counters_witness:
  "length (Txs scenario_block) \<le> length (Results scenario_block) \<and>
   put_fault commit_fails 0 = None \<and> put_fault commit_fails 1 = None \<and>
   write_fault commit_fails = Some (Error ''commit failed'') \<and>
   fst (Accepted commit_fails fresh scenario_block) = Returned (Some (Error ''commit failed'')) \<and>
   transfer (metrics (snd (Accepted commit_fails fresh scenario_block))) = 1 \<and>
   mintAsset (metrics (snd (Accepted commit_fails fresh scenario_block))) = 0 \<and>
   metaDB (snd (Accepted commit_fails fresh scenario_block)) = Map.empty"
proof -
  have h: "length (Txs scenario_block) \<le> length (Results scenario_block)"
    "\<forall>i<length (Txs scenario_block). put_fault commit_fails i = None"
    "write_fault commit_fails = Some (Error ''commit failed'')"
    by (simp_all add: scenario_block_def commit_fails_def)
  have p: "put_fault commit_fails 0 = None" "put_fault commit_fails 1 = None"
    by (simp_all add: commit_fails_def)
  have "Accepted commit_fails fresh scenario_block =
          (Returned (Some (Error ''commit failed'')),
           fresh\<lparr>metrics := add_counts (metrics fresh)
             (zip (Txs scenario_block) (Results scenario_block))\<rparr>)"
    using h by (rule commit_failure_keeps_counters)
  then have "fst (Accepted commit_fails fresh scenario_block) =
               Returned (Some (Error ''commit failed''))"
    and "transfer (metrics (snd (Accepted commit_fails fresh scenario_block))) = 1"
    and "mintAsset (metrics (snd (Accepted commit_fails fresh scenario_block))) = 0"
    and "metaDB (snd (Accepted commit_fails fresh scenario_block)) = Map.empty"
    by (simp_all add: add_counts_def count_kind_def scenario_block_def fresh_def no_counts_def)
  with h(1,3) p show ?thesis by blast
qed

text \<open>
  Claim C6. If one of the three subdirectories cannot be created or one of the three
  stores cannot be opened, \<^verbatim>\<open>Initialize\<close> returns an error, whatever the other calls
  do. The error value carries nothing else: no store handle, no strategy. When the
  metrics, the configuration and the genesis were set up before, the error returned is
  the one of the first failing set-up, as it is.
\<close>

theorem store_failure_aborts:
  assumes "store_setup_fails env"
  shows "isl (Initialize env) \<and>
         (\<not> isl (newMetrics env) \<and> \<not> isl (config_New env) \<and> \<not> isl (genesis_New env) \<longrightarrow>
            first_store_error env = Some (projl (Initialize env)))"
  using assms
  by (auto simp: store_setup_fails_def open_store_def first_store_error_def Initialize_def
      split: sum.splits)

theorem store_failure_aborts_witness:
  "store_setup_fails state_store_locked \<and>
   \<not> isl (newMetrics state_store_locked) \<and> \<not> isl (config_New state_store_locked) \<and>
   \<not> isl (genesis_New state_store_locked) \<and>
   first_store_error state_store_locked = Some (Error ''locked'') \<and>
   Initialize state_store_locked = Inl (Error ''locked'')"
proof -
  have f: "store_setup_fails state_store_locked"
    by (simp add: store_setup_fails_def open_store_def state_store_locked_def sample_env_def)
  have e: "\<not> isl (newMetrics state_store_locked)" "\<not> isl (config_New state_store_locked)"
    "\<not> isl (genesis_New state_store_locked)"
    by (simp_all add: state_store_locked_def sample_env_def)
  from store_failure_aborts [OF f] e
  have i: "isl (Initialize state_store_locked)"
    and s: "first_store_error state_store_locked = Some (projl (Initialize state_store_locked))"
    by simp_all
  have r: "Initialize state_store_locked = Inl (Error ''locked'')"
    by (rule run_state_store_locked)
  from s have "first_store_error state_store_locked = Some (Error ''locked'')"
    by (simp add: r)
  with f e r show ?thesis by blast
qed

text \<open>
  Claim C7. \<^verbatim>\<open>Rejected\<close> returns \<^verbatim>\<open>nil\<close> and leaves the controller, its counters
  and its store as they are, for every block and however often it is called.
\<close>

theorem Rejected_no_effect:
  "Rejected c blk = (None, c) \<and> Rejected_all c blks = (replicate (length blks) None, c)"
  by (induction blks) (simp_all add: Rejected_def)

text \<open>
  Claim C8, as stated, fails when the commit fails: for a block without transactions
  \<^verbatim>\<open>Accepted\<close> still calls \<^verbatim>\<open>batch.Write()\<close> and returns its error.
\<close>

theorem empty_block_counterexample:
  "Txs empty_block = [] \<and>
   Accepted commit_fails fresh empty_block = (Returned (Some (Error ''commit failed'')), fresh)"
  by (simp add: run_empty_commit_fails) (simp add: empty_block_def)

text \<open>
  Claim C8, amended. For a block without transactions \<^verbatim>\<open>Accepted\<close> queues no write,
  changes no counter and leaves the store as it is; it returns what the commit of the
  empty batch returns, so no error whenever that commit succeeds.
\<close>

theorem empty_block_result:
  assumes "Txs blk = []"
  shows "Accepted env c blk = (Returned (write_fault env), c)"
  using assms by (simp add: Accepted_def NewBatch_def Write_def split: option.splits)

theorem empty_block_result_witness:
  "Txs empty_block = [] \<and> write_fault healthy = None \<and>
   Accepted healthy fresh empty_block = (Returned None, fresh)"
proof -
  have e: "Txs empty_block = []"
    by (simp add: empty_block_def)
  have w: "write_fault healthy = None"
    by (simp add: healthy_def)
  from empty_block_result [OF e, of healthy fresh] w
  have "Accepted healthy fresh empty_block = (Returned None, fresh)"
    by simp
  with e w show ?thesis by blast
qed

text \<open>
  Claim C9. When the write of transaction \<open>i\<close> is the first to fail, with \<open>e\<close>, the
  call returns \<open>e\<close>, the store is unchanged, and the counters have been raised for
  the successful transactions before \<open>i\<close> (none of them when \<open>i = 0\<close>). In the sample
  run the second write fails: one transfer is counted, no record is stored.
\<close>

theorem midblock_failure_keeps_counters:
  assumes "i < length (Txs blk)" and "i < length (Results blk)"
    and "\<forall>j<i. put_fault env j = None"
    and "put_fault env i = Some e"
  shows "Accepted env c blk =
           (Returned (Some e),
            c\<lparr>metrics := add_counts (metrics c) (take i (zip (Txs blk) (Results blk)))\<rparr>)"
  using assms by (intro Accepted_put_fault) simp_all

theorem midblock_failure_keeps_counters_witness:
  "(0::nat) < 1 \<and> 1 < length (Txs two_transfers) \<and> 1 < length (Results two_transfers) \<and>
   put_fault second_put_fails 0 = None \<and>
   put_fault second_put_fails 1 = Some (Error ''put failed'') \<and>
   fst (Accepted second_put_fails fresh two_transfers) = Returned (Some (Error ''put failed'')) \<and>
   transfer (metrics (snd (Accepted second_put_fails fresh two_transfers))) = 1 \<and>
   metaDB (snd (Accepted second_put_fails fresh two_transfers)) = Map.empty"
proof -
  have h: "1 < length (Txs two_transfers)" "1 < length (Results two_transfers)"
    "\<forall>j<1. put_fault second_put_fails j = None"
    "put_fault second_put_fails 1 = Some (Error ''put failed'')"
    by (simp_all add: two_transfers_def second_put_fails_def)
  have p: "put_fault second_put_fails 0 = None"
    by (simp add: second_put_fails_def)
  have "Accepted second_put_fails fresh two_transfers =
          (Returned (Some (Error ''put failed'')),
           fresh\<lparr>metrics := add_counts (metrics fresh)
             (take 1 (zip (Txs two_transfers) (Results two_transfers)))\<rparr>)"
    using h by (rule midblock_failure_keeps_counters)
  then have "fst (Accepted second_put_fails fresh two_transfers) =
               Returned (Some (Error ''put failed''))"
    and "transfer (metrics (snd (Accepted second_put_fails fresh two_transfers))) = 1"
    and "metaDB (snd (Accepted second_put_fails fresh two_transfers)) = Map.empty"
    by (simp_all add: add_counts_def count_kind_def two_transfers_def fresh_def no_counts_def)
  with h(1,2,4) p show ?thesis by simp
qed

subsection \<open>Transactions and results by position\<close>

text \<open>
  Claim C10. With at least as many results as transactions the call never panics.
  It panics exactly when the results run out before the transactions do and no write
  has failed before the first missing result. When the call returns \<^verbatim>\<open>nil\<close>,
  transaction \<open>i\<close> was indexed and counted with result \<open>i\<close>.
\<close>

theorem results_cover_txs:
  "(length (Txs blk) \<le> length (Results blk) \<longrightarrow> fst (Accepted env c blk) \<noteq> Panic) \<and>
   (fst (Accepted env c blk) = Panic \<longleftrightarrow>
      length (Results blk) < length (Txs blk) \<and>
      (\<forall>j<length (Results blk). put_fault env j = None)) \<and>
   (Accepted env c blk = (Returned None, c') \<longrightarrow>
      metaDB c' = apply_writes (metaDB c) (indexed_records blk) \<and>
      metrics c' = add_counts (metrics c) (zip (Txs blk) (Results blk)) \<and>
      (\<forall>i<length (Txs blk).
         i < length (Results blk) \<and>
         zip (Txs blk) (Results blk) ! i = (Txs blk ! i, Results blk ! i) \<and>
         indexed_records blk ! i =
           (ID (Txs blk ! i),
            \<lparr>timestamp = GetTimestamp blk, success = Success (Results blk ! i),
             units = Units (Results blk ! i)\<rparr>)))"
proof (intro conjI impI)
  show iff: "fst (Accepted env c blk) = Panic \<longleftrightarrow>
      length (Results blk) < length (Txs blk) \<and>
      (\<forall>j<length (Results blk). put_fault env j = None)"
    by (rule Accepted_Panic_iff)
  assume "length (Txs blk) \<le> length (Results blk)"
  then show "fst (Accepted env c blk) \<noteq> Panic"
    by (simp add: iff)
next
  assume run: "Accepted env c blk = (Returned None, c')"
  from Accepted_Returned_None [OF run]
  have len: "length (Txs blk) \<le> length (Results blk)"
    and db: "metaDB c' = apply_writes (metaDB c) (indexed_records blk)"
    by simp_all
  show "metaDB c' = apply_writes (metaDB c) (indexed_records blk)"
    by (rule db)
  have "reached env blk = zip (Txs blk) (Results blk)"
    using run
    by (auto simp: Accepted_result loop_result_def Write_def Let_def reached_def
        first_fault_None_iff no_fault_puts_ok split: option.splits if_splits)
  then show "metrics c' = add_counts (metrics c) (zip (Txs blk) (Results blk))"
    using Accepted_metrics [of env c blk] by (simp add: run)
  show "\<forall>i<length (Txs blk).
         i < length (Results blk) \<and>
         zip (Txs blk) (Results blk) ! i = (Txs blk ! i, Results blk ! i) \<and>
         indexed_records blk ! i =
           (ID (Txs blk ! i),
            \<lparr>timestamp = GetTimestamp blk, success = Success (Results blk ! i),
             units = Units (Results blk ! i)\<rparr>)"
    using len by (simp add: nth_indexed_records)
qed

theorem results_cover_txs_witness:
  "length (Txs scenario_block) \<le> length (Results scenario_block) \<and>
   fst (Accepted healthy fresh scenario_block) \<noteq> Panic \<and>
   indexed_records scenario_block ! 1 =
     (2, \<lparr>timestamp = 1700000000, success = False, units = 0\<rparr>) \<and>
   length (Results short_results) < length (Txs short_results) \<and>
   put_fault healthy 0 = None \<and>
   fst (Accepted healthy fresh short_results) = Panic"
proof -
  define c1 where "c1 = snd (Accepted healthy fresh scenario_block)"
  have run1: "Accepted healthy fresh scenario_block = (Returned None, c1)"
    by (simp add: c1_def run_scenario_healthy)
  have len: "length (Txs scenario_block) \<le> length (Results scenario_block)"
    by (simp add: scenario_block_def)
  have short: "length (Results short_results) < length (Txs short_results)"
    "\<forall>j<length (Results short_results). put_fault healthy j = None"
    by (simp_all add: short_results_def healthy_def)
  have p: "put_fault healthy 0 = None"
    by (simp add: healthy_def)
  from results_cover_txs [of scenario_block healthy fresh c1] len run1
  have a: "fst (Accepted healthy fresh scenario_block) \<noteq> Panic"
    and b: "\<forall>i<length (Txs scenario_block).
         i < length (Results scenario_block) \<and>
         zip (Txs scenario_block) (Results scenario_block) ! i =
           (Txs scenario_block ! i, Results scenario_block ! i) \<and>
         indexed_records scenario_block ! i =
           (ID (Txs scenario_block ! i),
            \<lparr>timestamp = GetTimestamp scenario_block,
             success = Success (Results scenario_block ! i),
             units = Units (Results scenario_block ! i)\<rparr>)"
    by blast+
  from b [rule_format, of 1]
  have c: "indexed_records scenario_block ! 1 =
     (2, \<lparr>timestamp = 1700000000, success = False, units = 0\<rparr>)"
    by (simp add: scenario_block_def)
  from results_cover_txs [of short_results healthy fresh] short
  have d: "fst (Accepted healthy fresh short_results) = Panic"
    by blast
  show ?thesis
    using len a short(1) p c d by blast
qed

end
